theory Spec2Isabelle
  imports Main "HOL-Library.Sublist"
begin

section \<open>Python exceptions as values\<close>

text \<open>
  Every exception the modelled code can meet is a value of \<open>py_error\<close>; a computation
  that may raise returns \<open>py_error + 'a\<close>, with \<open>Inl\<close> for the raised exception.
  \<open>DatabaseError\<close> stands for any exception of the database driver, \<open>PlaywrightError\<close>
  for any exception of a browser call, \<open>StorageStateError\<close> for the one
  \<^verbatim>\<open>new_context\<close> raises when it cannot read or parse the storage-state file it is given,
  and \<open>PrintError\<close> for any exception of \<^verbatim>\<open>print\<close> (a name the output encoding
  cannot write, a closed output stream).
\<close>

datatype py_error =
    KeyError string
  | TypeError string
  | ValueError
  | IndexError
  | DatabaseError
  | PlaywrightError
  | StorageStateError
  | PrintError

section \<open>models.py: the connections table\<close>

text \<open>
  \<^verbatim>\<open>class Connection(Base)\<close> declares six columns. A stored row carries all of them; the
  primary key \<open>id\<close> is written \<open>id_col\<close> here. Timestamps are natural numbers (seconds).
\<close>

record connection =
  id_col :: nat
  name :: string
  occupation :: string
  profile_url :: string
  first_seen :: nat
  last_updated :: nat

text \<open>The attribute names models.py maps for \<^verbatim>\<open>Connection\<close> (lines 13 to 18).\<close>

definition Connection_columns :: "string list" where
  "Connection_columns =
     [''id'', ''name'', ''occupation'', ''profile_url'', ''first_seen'', ''last_updated'']"

text \<open>
  The model declares no \<^verbatim>\<open>__init__\<close>, so instances are built by the constructor that
  \<^verbatim>\<open>declarative_base()\<close> supplies: it walks the keyword arguments and raises
  \<^verbatim>\<open>TypeError\<close> at the first keyword that is not an attribute of the class, otherwise
  sets each one. The result is the pending (not yet inserted) object: the keyword values.
\<close>

fun Connection_init :: "(string \<times> string) list \<Rightarrow> py_error + (string \<times> string) list" where
  "Connection_init [] = Inr []"
| "Connection_init ((k, v) # kwargs) =
     (if k \<in> set Connection_columns
      then (case Connection_init kwargs of Inl e \<Rightarrow> Inl e | Inr obj \<Rightarrow> Inr ((k, v) # obj))
      else Inl (TypeError k))"

section \<open>linkedin_scrapper.py: save_single_connection\<close>

text \<open>
  The environment of one call: the database clock (\<^verbatim>\<open>func.now()\<close>) and, for each
  call the function makes outside its own code, whether that call raises: creating the
  session (line 42), the SELECT of the lookup, the \<^verbatim>\<open>print\<close> inside the \<^verbatim>\<open>try\<close>
  block, the flush at commit, the \<^verbatim>\<open>print\<close> of the handler (\<open>report_fails\<close>), the
  rollback, and the closing of the session.
\<close>

record db_env =
  now :: nat
  session_fails :: bool
  query_fails :: bool
  print_fails :: bool
  commit_fails :: bool
  report_fails :: bool
  rollback_fails :: bool
  close_fails :: bool

text \<open>What a call does to its session and prints, in order.\<close>

datatype session_event =
    Print_Updated string
  | Print_Saved string
  | Print_Error string py_error
  | Commit
  | Rollback
  | Close

text \<open>The argument \<^verbatim>\<open>connection_data\<close> is a dict from field names to strings.\<close>

type_synonym py_dict = "string \<rightharpoonup> string"

definition getitem :: "py_dict \<Rightarrow> string \<Rightarrow> py_error + string" where
  "getitem d k = (case d k of None \<Rightarrow> Inl (KeyError k) | Some v \<Rightarrow> Inr v)"

text \<open>SQLite assigns an INTEGER PRIMARY KEY one more than the largest in the table.\<close>

definition next_id :: "connection list \<Rightarrow> nat" where
  "next_id db = Suc (fold max (map id_col db) 0)"

text \<open>
  The UPDATE the flush emits for a loaded row whose \<open>name\<close> or \<open>occupation\<close> was given
  a new value: it sets only those two columns and, through \<^verbatim>\<open>onupdate=func.now()\<close>,
  \<open>last_updated\<close>. When both assignments store the values the row already has, the unit
  of work finds no net change and emits no UPDATE, so the row stays as it is.
  (\<^verbatim>\<open>existing.source_profile = ...\<close> sets a plain Python attribute: the class maps no
  such column, and nothing is written for it.)
\<close>

definition flush_update :: "nat \<Rightarrow> string \<Rightarrow> string \<Rightarrow> connection \<Rightarrow> connection" where
  "flush_update t n occ r =
     (if name r = n \<and> occupation r = occ then r
      else r\<lparr>name := n, occupation := occ, last_updated := t\<rparr>)"

definition update_row ::
  "nat \<Rightarrow> connection \<Rightarrow> string \<Rightarrow> string \<Rightarrow> connection list \<Rightarrow> connection list" where
  "update_row t existing n occ db =
     map (\<lambda>r. if id_col r = id_col existing then flush_update t n occ r else r) db"

text \<open>The INSERT of a pending object: both timestamps default to \<^verbatim>\<open>func.now()\<close>.\<close>

definition insert_row ::
  "nat \<Rightarrow> (string \<times> string) list \<Rightarrow> connection list \<Rightarrow> connection list" where
  "insert_row t obj db =
     db @ [\<lparr>id_col = next_id db,
            name = (case map_of obj ''name'' of Some v \<Rightarrow> v | None \<Rightarrow> []),
            occupation = (case map_of obj ''occupation'' of Some v \<Rightarrow> v | None \<Rightarrow> []),
            profile_url = (case map_of obj ''profile_url'' of Some v \<Rightarrow> v | None \<Rightarrow> []),
            first_seen = t, last_updated = t\<rparr>]"

text \<open>
  The body of the \<^verbatim>\<open>try\<close> block (lines 44 to 68). It returns what was printed and done
  up to the point it left the block, and either the exception raised there or the committed
  table. Changes reach the table only through a successful commit.
\<close>

definition try_block ::
  "db_env \<Rightarrow> py_dict \<Rightarrow> string \<Rightarrow> connection list
     \<Rightarrow> session_event list \<times> (py_error + connection list)" where
  "try_block env connection_data source_profile db =
     (case getitem connection_data ''profile_url'' of
        Inl e \<Rightarrow> ([], Inl e)
      | Inr url \<Rightarrow>
          if query_fails env then ([], Inl DatabaseError)
          else
            (case find (\<lambda>r. profile_url r = url) db of
               Some existing \<Rightarrow>
                 (case getitem connection_data ''name'' of
                    Inl e \<Rightarrow> ([], Inl e)
                  | Inr n \<Rightarrow>
                      (case getitem connection_data ''occupation'' of
                         Inl e \<Rightarrow> ([], Inl e)
                       | Inr occ \<Rightarrow>
                           if print_fails env then ([], Inl PrintError)
                           else if commit_fails env
                           then ([Print_Updated n], Inl DatabaseError)
                           else ([Print_Updated n, Commit],
                                 Inr (update_row (now env) existing n occ db))))
             | None \<Rightarrow>
                 (case getitem connection_data ''name'' of
                    Inl e \<Rightarrow> ([], Inl e)
                  | Inr n \<Rightarrow>
                      (case getitem connection_data ''occupation'' of
                         Inl e \<Rightarrow> ([], Inl e)
                       | Inr occ \<Rightarrow>
                           (case Connection_init
                                   [(''name'', n), (''occupation'', occ),
                                    (''profile_url'', url),
                                    (''source_profile'', source_profile)] of
                              Inl e \<Rightarrow> ([], Inl e)
                            | Inr obj \<Rightarrow>
                                if print_fails env then ([], Inl PrintError)
                                else if commit_fails env
                                then ([Print_Saved n], Inl DatabaseError)
                                else ([Print_Saved n, Commit],
                                      Inr (insert_row (now env) obj db)))))))"

text \<open>
  The \<^verbatim>\<open>finally\<close> clause, \<^verbatim>\<open>session.close()\<close>: it runs on every path out of the
  \<^verbatim>\<open>try\<close> statement, and an exception it raises replaces the pending return value or
  exception.
\<close>

definition session_finally ::
  "db_env \<Rightarrow> py_error + bool \<Rightarrow> connection list \<Rightarrow> session_event list
     \<Rightarrow> (py_error + bool) \<times> connection list \<times> session_event list" where
  "session_finally env pending db evs =
     (if close_fails env then (Inl DatabaseError, db, evs)
      else (pending, db, evs @ [Close]))"

text \<open>
  The whole function. The session is created before the \<^verbatim>\<open>try\<close> statement. The
  \<^verbatim>\<open>except Exception\<close> handler first formats and prints its message, with
  \<^verbatim>\<open>connection_data['name']\<close>, then rolls back, then returns \<open>False\<close>: an exception
  raised by any of its own statements leaves the handler at once and escapes. The result is
  the returned boolean or the exception that escapes, the table afterwards, and the events.
\<close>

definition save_single_connection ::
  "db_env \<Rightarrow> py_dict \<Rightarrow> string \<Rightarrow> connection list
     \<Rightarrow> (py_error + bool) \<times> connection list \<times> session_event list" where
  "save_single_connection env connection_data source_profile db =
     (if session_fails env then (Inl DatabaseError, db, [])
      else
        (case try_block env connection_data source_profile db of
           (evs, Inr db') \<Rightarrow> session_finally env (Inr True) db' evs
         | (evs, Inl e) \<Rightarrow>
             (case getitem connection_data ''name'' of
                Inl e' \<Rightarrow> session_finally env (Inl e') db evs
              | Inr n \<Rightarrow>
                  if report_fails env then session_finally env (Inl PrintError) db evs
                  else if rollback_fails env
                  then session_finally env (Inl DatabaseError) db (evs @ [Print_Error n e])
                  else session_finally env (Inr False) db
                         (evs @ [Print_Error n e, Rollback]))))"

text \<open>The dict that lines 180 to 184 build from the three extracted strings.\<close>

definition connection_dict :: "string \<times> string \<times> string \<Rightarrow> py_dict" where
  "connection_dict c =
     (case c of (n, occ, url) \<Rightarrow>
        [''name'' \<mapsto> n, ''occupation'' \<mapsto> occ, ''profile_url'' \<mapsto> url])"

section \<open>persistent_browser.py: PersistentBrowser\<close>

text \<open>
  The storage state of a context is a list of cookie names and values. The file at
  \<^verbatim>\<open>storage_state_path\<close> is in one of four states: \<open>Missing\<close>; \<open>Unreachable\<close>,
  present where the process cannot stat it (a directory it may not search), so that
  \<^verbatim>\<open>os.path.exists\<close> answers False; \<open>Corrupt\<close>, seen by \<^verbatim>\<open>os.path.exists\<close> but
  not readable or not parseable; or \<open>Stored\<close>, holding a stored state.
\<close>

type_synonym storage_state = "(string \<times> string) list"

datatype state_file = Missing | Unreachable | Corrupt | Stored storage_state

text \<open>\<^verbatim>\<open>os.path.exists\<close>: it answers False whenever the stat call fails.\<close>

definition path_exists :: "state_file \<Rightarrow> bool" where
  "path_exists file =
     (case file of
        Missing \<Rightarrow> False
      | Unreachable \<Rightarrow> False
      | Corrupt \<Rightarrow> True
      | Stored st \<Rightarrow> True)"

datatype Browser = Browser
datatype BrowserContext = BrowserContext storage_state
datatype Page = Page

text \<open>The attribute \<^verbatim>\<open>self.context\<close> is the field \<open>context_attr\<close>.\<close>

record PersistentBrowser =
  storage_state_path :: string
  browser :: "Browser option"
  context_attr :: "BrowserContext option"
  page :: "Page option"

text \<open>Which calls into the browser library raise, when they are made.\<close>

record playwright_env =
  launch_fails :: bool
  new_page_fails :: bool
  storage_state_fails :: bool
  page_close_fails :: bool
  context_close_fails :: bool
  browser_close_fails :: bool

text \<open>The calls \<^verbatim>\<open>save_state\<close> and \<^verbatim>\<open>close\<close> make, recorded in the order made.\<close>

datatype browser_call =
    Call_storage_state
  | Call_page_close
  | Call_context_close
  | Call_browser_close

definition PersistentBrowser_init :: "string \<Rightarrow> PersistentBrowser" where
  "PersistentBrowser_init path =
     \<lparr>storage_state_path = path, browser = None, context_attr = None, page = None\<rparr>"

text \<open>
  \<^verbatim>\<open>browser.new_context(**context_params)\<close>: with a \<^verbatim>\<open>storage_state\<close> parameter the
  library loads the file, and raises when it cannot; without one the context starts empty.
\<close>

definition new_context :: "state_file \<Rightarrow> bool \<Rightarrow> py_error + BrowserContext" where
  "new_context file with_storage_state =
     (if with_storage_state
      then (case file of
              Stored st \<Rightarrow> Inr (BrowserContext st)
            | Corrupt \<Rightarrow> Inl StorageStateError
            | Unreachable \<Rightarrow> Inl StorageStateError
            | Missing \<Rightarrow> Inl StorageStateError)
      else Inr (BrowserContext []))"

text \<open>
  \<^verbatim>\<open>start\<close> has no handler: the first failing call leaves the attributes assigned so
  far and propagates. The \<^verbatim>\<open>storage_state\<close> parameter is passed exactly when
  \<^verbatim>\<open>os.path.exists\<close> answers True.
\<close>

definition start ::
  "playwright_env \<Rightarrow> state_file \<Rightarrow> PersistentBrowser \<Rightarrow> PersistentBrowser \<times> (py_error + Page)" where
  "start env file self =
     (if launch_fails env then (self, Inl PlaywrightError)
      else
        (let self1 = self\<lparr>browser := Some Browser\<rparr>
         in case new_context file (path_exists file) of
              Inl e \<Rightarrow> (self1, Inl e)
            | Inr ctx \<Rightarrow>
                (let self2 = self1\<lparr>context_attr := Some ctx\<rparr>
                 in if new_page_fails env then (self2, Inl PlaywrightError)
                    else (self2\<lparr>page := Some Page\<rparr>, Inr Page))))"

text \<open>
  \<^verbatim>\<open>save_state\<close> and \<^verbatim>\<open>close\<close> assign no attribute, so they return only the exception
  that escapes (if any), the state file afterwards and the calls made.
\<close>

definition save_state ::
  "playwright_env \<Rightarrow> PersistentBrowser \<Rightarrow> state_file
     \<Rightarrow> (py_error + unit) \<times> state_file \<times> browser_call list" where
  "save_state env self file =
     (case context_attr self of
        None \<Rightarrow> (Inr (), file, [])
      | Some (BrowserContext st) \<Rightarrow>
          if storage_state_fails env then (Inl PlaywrightError, file, [Call_storage_state])
          else (Inr (), Stored st, [Call_storage_state]))"

text \<open>One guarded release, \<^verbatim>\<open>if self.x: self.x.close()\<close>.\<close>

definition close_if ::
  "bool \<Rightarrow> bool \<Rightarrow> browser_call \<Rightarrow> (py_error + unit) \<times> browser_call list" where
  "close_if held fails call =
     (if held then (if fails then (Inl PlaywrightError, [call]) else (Inr (), [call]))
      else (Inr (), []))"

text \<open>Statement sequencing: what follows runs only when what came before did not raise.\<close>

fun and_then ::
  "(py_error + unit) \<times> browser_call list \<Rightarrow> (py_error + unit) \<times> browser_call list
     \<Rightarrow> (py_error + unit) \<times> browser_call list" where
  "and_then (Inl e, cs) nxt = (Inl e, cs)"
| "and_then (Inr u, cs) nxt = (fst nxt, cs @ snd nxt)"

definition finally_block ::
  "playwright_env \<Rightarrow> PersistentBrowser \<Rightarrow> (py_error + unit) \<times> browser_call list" where
  "finally_block env self =
     and_then
       (and_then (close_if (page self \<noteq> None) (page_close_fails env) Call_page_close)
                 (close_if (context_attr self \<noteq> None) (context_close_fails env) Call_context_close))
       (close_if (browser self \<noteq> None) (browser_close_fails env) Call_browser_close)"

text \<open>
  \<^verbatim>\<open>try: self.save_state() finally: ...\<close>: the \<^verbatim>\<open>finally\<close> block runs whether or not
  \<^verbatim>\<open>save_state\<close> raised; an exception raised inside it replaces the pending one, otherwise
  the pending one (if any) is re-raised after it.
\<close>

definition close ::
  "playwright_env \<Rightarrow> PersistentBrowser \<Rightarrow> state_file
     \<Rightarrow> (py_error + unit) \<times> state_file \<times> browser_call list" where
  "close env self file =
     (case save_state env self file of
        (saved, file', calls) \<Rightarrow>
          (case finally_block env self of
             (Inl e, calls') \<Rightarrow> (Inl e, file', calls @ calls')
           | (Inr u, calls') \<Rightarrow> (saved, file', calls @ calls')))"

section \<open>linkedin_scrapper.py: Scrapper.human_like_behavior\<close>

text \<open>
  The loop reads the page height once before it starts and once in every cycle. The page
  is the sequence of heights it answers: \<open>height 0\<close> to the read before the loop and
  \<open>height k\<close> to the read of cycle \<open>k\<close>. The random scroll distances and delays do not
  enter the control flow; every browser call is taken to return normally.

  The state holds the three local variables of the loop, and two observations: the number of
  cycles run so far, and the ordinals of the cycles in which \<^verbatim>\<open>self.save_state()\<close> was
  called.
\<close>

record scroll_state =
  last_height :: int
  all_loaded :: bool
  scroll_attempts :: nat
  cycles :: nat
  save_cycles :: "nat list"

definition max_scroll_attempts :: nat where
  "max_scroll_attempts = 20"

text \<open>One run of the loop body (lines 425 to 443).\<close>

definition scroll_cycle :: "(nat \<Rightarrow> int) \<Rightarrow> scroll_state \<Rightarrow> scroll_state" where
  "scroll_cycle height s =
     (let k = Suc (cycles s);
          new_height = height k;
          s1 = (if new_height = last_height s
                then (let a = Suc (scroll_attempts s)
                      in s\<lparr>scroll_attempts := a,
                           all_loaded := (if 3 \<le> a then True else all_loaded s)\<rparr>)
                else s\<lparr>scroll_attempts := 0, last_height := new_height\<rparr>);
          s2 = (if scroll_attempts s1 mod 5 = 0
                then s1\<lparr>save_cycles := save_cycles s1 @ [k]\<rparr>
                else s1)
      in s2\<lparr>cycles := k\<rparr>)"

text \<open>
  \<^verbatim>\<open>while not all_loaded and scroll_attempts < max_scroll_attempts\<close>. The loop need not
  end, so its result is an option: \<open>None\<close> when it runs forever, otherwise the state in
  which it left.
\<close>

partial_function (option) scroll_loop ::
  "(nat \<Rightarrow> int) \<Rightarrow> scroll_state \<Rightarrow> scroll_state option" where
  "scroll_loop height s =
     (if \<not> all_loaded s \<and> scroll_attempts s < max_scroll_attempts
      then scroll_loop height (scroll_cycle height s)
      else Some s)"

declare scroll_loop.simps [code]

definition scroll_init :: "(nat \<Rightarrow> int) \<Rightarrow> scroll_state" where
  "scroll_init height =
     \<lparr>last_height = height 0, all_loaded = False, scroll_attempts = 0,
      cycles = 0, save_cycles = []\<rparr>"

definition human_like_behavior :: "(nat \<Rightarrow> int) \<Rightarrow> scroll_state option" where
  "human_like_behavior height = scroll_loop height (scroll_init height)"

text \<open>The state after the first \<open>n\<close> cycles, whether or not the loop would have stopped.\<close>

fun after_cycles :: "nat \<Rightarrow> (nat \<Rightarrow> int) \<Rightarrow> scroll_state" where
  "after_cycles 0 height = scroll_init height"
| "after_cycles (Suc n) height = scroll_cycle height (after_cycles n height)"

section \<open>linkedin_scrapper.py: Scrapper.extract_connection_count\<close>

text \<open>
  Strings are byte strings here. \<^verbatim>\<open>str.split(" ")\<close> cuts at every single space and
  always returns at least one piece.
\<close>

fun split_on :: "char \<Rightarrow> string \<Rightarrow> string list" where
  "split_on sep [] = [[]]"
| "split_on sep (c # cs) =
     (if c = sep then [] # split_on sep cs
      else (case split_on sep cs of
              [] \<Rightarrow> [[c]]
            | piece # pieces \<Rightarrow> (c # piece) # pieces))"

definition index0 :: "'a list \<Rightarrow> py_error + 'a" where
  "index0 xs = (case xs of [] \<Rightarrow> Inl IndexError | x # _ \<Rightarrow> Inr x)"

text \<open>\<^verbatim>\<open>str.replace(old, new)\<close> for a one-character \<open>old\<close>.\<close>

definition replace_char :: "char \<Rightarrow> string \<Rightarrow> string \<Rightarrow> string" where
  "replace_char old new s = concat (map (\<lambda>c. if c = old then new else [c]) s)"

text \<open>
  \<^verbatim>\<open>int(s)\<close> on a string: surrounding whitespace is dropped, then an optional sign, then
  decimal digits, where single underscores may stand between digits; anything else raises
  \<^verbatim>\<open>ValueError\<close>. The model is that of an ASCII string: the whitespace is tab, line
  feed, vertical tab, form feed, carriage return and space, the digits are 0 to 9, and a byte
  outside ASCII is neither (the decimal digits and spaces of other scripts, which
  \<^verbatim>\<open>int\<close> also accepts, are not modelled). Nor is the interpreter's limit on the number of
  digits, beyond which \<^verbatim>\<open>int\<close> raises \<^verbatim>\<open>ValueError\<close>.
\<close>

definition is_space :: "char \<Rightarrow> bool" where
  "is_space c =
     (c \<in> set [CHR 0x09, CHR 0x0A, CHR 0x0B, CHR 0x0C, CHR 0x0D, CHR 0x20])"

definition strip :: "string \<Rightarrow> string" where
  "strip s = rev (dropWhile is_space (rev (dropWhile is_space s)))"

definition digit_value :: "char \<Rightarrow> nat option" where
  "digit_value c =
     (let code = (of_char c :: nat)
      in if 48 \<le> code \<and> code \<le> 57 then Some (code - 48) else None)"

fun parse_digits :: "bool \<Rightarrow> nat \<Rightarrow> string \<Rightarrow> nat option" where
  "parse_digits after_digit acc [] = (if after_digit then Some acc else None)"
| "parse_digits after_digit acc (c # cs) =
     (if c = CHR ''_''
      then (if after_digit then parse_digits False acc cs else None)
      else (case digit_value c of
              None \<Rightarrow> None
            | Some d \<Rightarrow> parse_digits True (10 * acc + d) cs))"

definition py_int :: "string \<Rightarrow> py_error + int" where
  "py_int s =
     (case strip s of
        [] \<Rightarrow> Inl ValueError
      | c # cs \<Rightarrow>
          if c = CHR ''-''
          then (case parse_digits False 0 cs of
                  None \<Rightarrow> Inl ValueError | Some n \<Rightarrow> Inr (- int n))
          else if c = CHR ''+''
          then (case parse_digits False 0 cs of
                  None \<Rightarrow> Inl ValueError | Some n \<Rightarrow> Inr (int n))
          else (case parse_digits False 0 (c # cs) of
                  None \<Rightarrow> Inl ValueError | Some n \<Rightarrow> Inr (int n)))"

text \<open>The body of the \<^verbatim>\<open>try\<close> block (lines 512 and 513).\<close>

definition clean_and_parse :: "string \<Rightarrow> py_error + int" where
  "clean_and_parse text =
     (case index0 (split_on CHR '' '' text) of
        Inl e \<Rightarrow> Inl e
      | Inr piece \<Rightarrow> py_int (replace_char CHR '','' [] piece))"

text \<open>\<^verbatim>\<open>except (ValueError, IndexError): return 0\<close>; any other exception would escape.\<close>

definition extract_connection_count :: "string \<Rightarrow> py_error + int" where
  "extract_connection_count text =
     (case clean_and_parse text of
        Inr n \<Rightarrow> Inr n
      | Inl ValueError \<Rightarrow> Inr 0
      | Inl IndexError \<Rightarrow> Inr 0
      | Inl e \<Rightarrow> Inl e)"

section \<open>linkedin_scrapper.py: the extraction loop of get_profile_connections\<close>

text \<open>
  Lines 139 to 223, after navigation has produced \<^verbatim>\<open>connections_count\<close>. What the browser
  shows is an input: a list of result pages, each either failing to load or holding its
  elements and the state of its Next button. An element either yields the three strings of
  the dict built at lines 180 to 184 (after the DOM queries and the text clean-up of lines 167
  to 178), or raises on the way and is skipped by the inner handler. When the list is
  used up no further page loads (the wait for the results container times out).
\<close>

type_synonym connection_tuple = "string \<times> string \<times> string"

datatype element = Extracted string string string | Extraction_fails

datatype next_button = No_button | Button_disabled | Button_enabled | Click_fails

datatype results_page = Load_fails | Results "element list" next_button

text \<open>
  The local variables of the run, the table, and two observations: every dict built, in
  order (\<open>extracted\<close>), and the arguments of every call of \<^verbatim>\<open>save_single_connection\<close>,
  in order (\<open>save_calls\<close>).
\<close>

record run_state =
  connections :: "connection_tuple list"
  total_saved :: nat
  failed_saves :: nat
  current_page :: nat
  table :: "connection list"
  extracted :: "connection_tuple list"
  save_calls :: "(connection_tuple \<times> string) list"

text \<open>
  The body of the \<^verbatim>\<open>for\<close> loop. By line 188 the local \<^verbatim>\<open>profile_url\<close> has been
  reassigned to the element's link, so that is the second argument of the call. The
  \<open>i\<close>-th call of the run meets the database environment \<open>envs i\<close>.
\<close>

definition process_element :: "(nat \<Rightarrow> db_env) \<Rightarrow> element \<Rightarrow> run_state \<Rightarrow> run_state" where
  "process_element envs el st =
     (case el of
        Extraction_fails \<Rightarrow> st
      | Extracted n occ url \<Rightarrow>
          (let connection = (n, occ, url);
               st0 = st\<lparr>extracted := extracted st @ [connection]\<rparr>
           in if connection \<notin> set (connections st) \<and> n \<noteq> ''N/A''
              then
                (let st1 = st0\<lparr>connections := connections st @ [connection],
                               save_calls := save_calls st @ [(connection, url)]\<rparr>
                 in case save_single_connection (envs (length (save_calls st)))
                           (connection_dict connection) url (table st) of
                      (Inr True, db', evs) \<Rightarrow>
                        st1\<lparr>total_saved := Suc (total_saved st), table := db'\<rparr>
                    | (Inr False, db', evs) \<Rightarrow>
                        st1\<lparr>failed_saves := Suc (failed_saves st), table := db'\<rparr>
                    | (Inl e, db', evs) \<Rightarrow> st1\<lparr>table := db'\<rparr>)
              else st0))"

fun process_elements :: "(nat \<Rightarrow> db_env) \<Rightarrow> element list \<Rightarrow> run_state \<Rightarrow> run_state" where
  "process_elements envs [] st = st"
| "process_elements envs (el # els) st =
     process_elements envs els (process_element envs el st)"

text \<open>The \<^verbatim>\<open>while total_saved < connections_count\<close> loop; every \<^verbatim>\<open>break\<close> returns.\<close>

fun extraction_loop ::
  "(nat \<Rightarrow> db_env) \<Rightarrow> nat \<Rightarrow> results_page list \<Rightarrow> run_state \<Rightarrow> run_state" where
  "extraction_loop envs connections_count [] st = st"
| "extraction_loop envs connections_count (pg # pgs) st =
     (if total_saved st < connections_count
      then (case pg of
              Load_fails \<Rightarrow> st
            | Results els button \<Rightarrow>
                if els = [] then st
                else
                  (let st' = process_elements envs els st
                   in case button of
                        Button_enabled \<Rightarrow>
                          extraction_loop envs connections_count pgs
                            (st'\<lparr>current_page := Suc (current_page st')\<rparr>)
                      | No_button \<Rightarrow> st'
                      | Button_disabled \<Rightarrow> st'
                      | Click_fails \<Rightarrow> st'))
      else st)"

definition get_profile_connections ::
  "(nat \<Rightarrow> db_env) \<Rightarrow> nat \<Rightarrow> results_page list \<Rightarrow> connection list \<Rightarrow> run_state" where
  "get_profile_connections envs connections_count pages db =
     extraction_loop envs connections_count pages
       \<lparr>connections = [], total_saved = 0, failed_saves = 0, current_page = 1,
        table = db, extracted = [], save_calls = []\<rparr>"

section \<open>Invariants used in the proofs\<close>

text \<open>
  While the scroll loop runs, \<open>last_height\<close> is the height read last, the counter stays
  at most 3, and \<open>all_loaded\<close> is set exactly when the counter has reached 3.
\<close>

definition scroll_inv :: "(nat \<Rightarrow> int) \<Rightarrow> scroll_state \<Rightarrow> bool" where
  "scroll_inv height s =
     (last_height s = height (cycles s) \<and> scroll_attempts s \<le> 3
      \<and> all_loaded s = (scroll_attempts s = 3))"

text \<open>
  During the extraction loop the dicts handed to persistence are exactly the accepted ones,
  without repetition, and the accepted ones are the extracted ones with a name.
\<close>

definition dedup_inv :: "run_state \<Rightarrow> bool" where
  "dedup_inv st =
     (map fst (save_calls st) = connections st \<and> distinct (connections st)
      \<and> set (connections st) = {c \<in> set (extracted st). fst c \<noteq> ''N/A''})"

text \<open>The bookkeeping after the call at line 188, as a function of what the call returned.\<close>

definition after_save ::
  "(py_error + bool) \<times> connection list \<times> session_event list
     \<Rightarrow> run_state \<Rightarrow> run_state \<Rightarrow> run_state" where
  "after_save res st st1 =
     (case res of
        (Inr True, db', evs) \<Rightarrow> st1\<lparr>total_saved := Suc (total_saved st), table := db'\<rparr>
      | (Inr False, db', evs) \<Rightarrow> st1\<lparr>failed_saves := Suc (failed_saves st), table := db'\<rparr>
      | (Inl e, db', evs) \<Rightarrow> st1\<lparr>table := db'\<rparr>)"

section \<open>Properties of the persistence layer\<close>

lemma Connection_init_source_profile:
  "Connection_init [(''name'', n), (''occupation'', occ), (''profile_url'', url),
                    (''source_profile'', sp)] = Inl (TypeError ''source_profile'')"
  by (simp add: Connection_columns_def)

lemma connection_dict_items:
  "getitem (connection_dict (n, occ, url)) ''name'' = Inr n"
  "getitem (connection_dict (n, occ, url)) ''occupation'' = Inr occ"
  "getitem (connection_dict (n, occ, url)) ''profile_url'' = Inr url"
  by (simp_all add: getitem_def connection_dict_def)

text \<open>The events of the \<^verbatim>\<open>try\<close> block: it commits last when it succeeds, and never otherwise.\<close>

lemma try_block_events:
  "try_block env cd sp db = (evs, r) \<Longrightarrow> Rollback \<notin> set evs \<and> Close \<notin> set evs"
  by (auto simp: try_block_def split: sum.splits option.splits if_splits)

lemma try_block_commit:
  "try_block env cd sp db = (evs, Inr db') \<Longrightarrow>
   \<exists>evs'. evs = evs' @ [Commit] \<and> Commit \<notin> set evs' \<and> Rollback \<notin> set evs'"
  by (auto simp: try_block_def split: sum.splits option.splits if_splits)

lemma try_block_no_commit:
  "try_block env cd sp db = (evs, Inl e) \<Longrightarrow> Commit \<notin> set evs"
  by (auto simp: try_block_def split: sum.splits option.splits if_splits)

text \<open>What the \<^verbatim>\<open>try\<close> block does with a record of the program.\<close>

lemma try_block_record:
  "try_block env (connection_dict (n, occ, url)) sp db =
     (if query_fails env then ([], Inl DatabaseError)
      else
        (case find (\<lambda>r. profile_url r = url) db of
           Some existing \<Rightarrow>
             if print_fails env then ([], Inl PrintError)
             else if commit_fails env then ([Print_Updated n], Inl DatabaseError)
             else ([Print_Updated n, Commit],
                   Inr (update_row (now env) existing n occ db))
         | None \<Rightarrow> ([], Inl (TypeError ''source_profile''))))"
  by (simp add: try_block_def connection_dict_items Connection_init_source_profile
        del: Connection_init.simps split: option.splits)

text \<open>
  For any dict that has a \<^verbatim>\<open>'name'\<close> entry, and when neither the creation of the
  session nor the handler's own statements nor the closing of the session raise: the
  function returns \<open>True\<close> with the committed table when the \<^verbatim>\<open>try\<close> block completes,
  and \<open>False\<close> with the table as it was, after a report and a rollback, when it raises.
\<close>

lemma save_single_connection_named:
  assumes "connection_data ''name'' = Some n"
    and "\<not> session_fails env" and "\<not> report_fails env"
    and "\<not> rollback_fails env" and "\<not> close_fails env"
  shows "save_single_connection env connection_data sp db =
     (case try_block env connection_data sp db of
        (evs, Inr db') \<Rightarrow> (Inr True, db', evs @ [Close])
      | (evs, Inl e) \<Rightarrow> (Inr False, db, evs @ [Print_Error n e, Rollback, Close]))"
proof (cases "try_block env connection_data sp db")
  case (Pair evs r)
  with assms show ?thesis
    by (cases r) (simp_all add: save_single_connection_def session_finally_def getitem_def)
qed

text \<open>
  A dict without a \<^verbatim>\<open>'name'\<close> entry is not a record the program builds; for it the
  handler's own message raises, and the \<^verbatim>\<open>KeyError\<close> escapes after the session is closed.
\<close>

lemma save_single_connection_nameless:
  "\<not> session_fails env \<Longrightarrow> \<not> close_fails env \<Longrightarrow>
   save_single_connection env Map.empty sp db = (Inl (KeyError ''name''), db, [Close])"
  by (simp add: save_single_connection_def session_finally_def try_block_def getitem_def)

text \<open>
  A lookup that finds nothing never adds a row and never returns \<open>True\<close>, whatever the
  environment: the constructor's \<^verbatim>\<open>TypeError\<close> comes before the session is touched.
\<close>

lemma save_single_connection_never_inserts:
  assumes "find (\<lambda>r. profile_url r = url) db = None"
  shows "fst (snd (save_single_connection env (connection_dict (n, occ, url)) sp db)) = db
       \<and> fst (save_single_connection env (connection_dict (n, occ, url)) sp db) \<noteq> Inr True"
  using assms
  by (simp add: save_single_connection_def session_finally_def try_block_record
        connection_dict_items)

lemma save_single_connection_new:
  assumes "find (\<lambda>r. profile_url r = url) db = None"
    and "\<not> session_fails env" and "\<not> report_fails env"
    and "\<not> rollback_fails env" and "\<not> close_fails env"
  shows "save_single_connection env (connection_dict (n, occ, url)) sp db
           = (Inr False, db,
              [Print_Error n (if query_fails env then DatabaseError
                              else TypeError ''source_profile''),
               Rollback, Close])"
  using assms
  by (simp add: save_single_connection_def session_finally_def try_block_record
        connection_dict_items)

text \<open>A lookup that finds a row updates it, when nothing raises.\<close>

lemma save_single_connection_existing:
  assumes "find (\<lambda>r. profile_url r = url) db = Some existing"
    and "\<not> session_fails env" and "\<not> query_fails env" and "\<not> print_fails env"
    and "\<not> commit_fails env" and "\<not> close_fails env"
  shows "save_single_connection env (connection_dict (n, occ, url)) sp db
           = (Inr True, update_row (now env) existing n occ db,
              [Print_Updated n, Commit, Close])"
  using assms
  by (simp add: save_single_connection_def session_finally_def try_block_record)

lemma find_map_same:
  "(\<And>x. P (f x) = P x) \<Longrightarrow> find P (map f xs) = map_option f (find P xs)"
  by (induction xs) auto

lemma profile_url_flush_update: "profile_url (flush_update t n occ r) = profile_url r"
  by (simp add: flush_update_def)

text \<open>
  The updated row: new name and occupation and a new \<open>last_updated\<close>; \<open>id_col\<close> and
  \<open>first_seen\<close> as they were.
\<close>

lemma update_row_found:
  assumes "find (\<lambda>r. profile_url r = url) db = Some existing"
    and "occ \<noteq> occupation existing"
  shows "find (\<lambda>r. profile_url r = url) (update_row t existing n occ db)
           = Some (existing\<lparr>name := n, occupation := occ, last_updated := t\<rparr>)"
proof -
  let ?g = "\<lambda>r. if id_col r = id_col existing then flush_update t n occ r else r"
  have "profile_url (?g r) = profile_url r" for r
    by (simp add: profile_url_flush_update)
  then have "find (\<lambda>r. profile_url r = url) (map ?g db)
               = map_option ?g (find (\<lambda>r. profile_url r = url) db)"
    by (intro find_map_same) simp
  with assms show ?thesis
    by (simp add: update_row_def flush_update_def)
qed

text \<open>
  C1. Upserting a connection twice under one \<open>profile_url\<close>, with two different
  occupations, should leave one stored row that has the second occupation, a new
  \<open>last_updated\<close>, and the \<open>id\<close> and \<open>first_seen\<close> of the first upsert. The code does
  not get that far: the first upsert of a new \<open>profile_url\<close> passes the keyword
  \<^verbatim>\<open>source_profile\<close> to \<^verbatim>\<open>Connection(...)\<close>, which has no such column, so it is rolled
  back and returns \<open>False\<close>; the second upsert meets the same empty table and fails the same
  way. After both, nothing is stored.
\<close>

theorem save_single_connection_twice_stores_nothing:
  "save_single_connection
      \<lparr>now = 100, session_fails = False, query_fails = False, print_fails = False,
        commit_fails = False, report_fails = False, rollback_fails = False,
        close_fails = False\<rparr>
      (connection_dict (''Ada'', ''Engineer'', ''https://www.linkedin.com/in/ada''))
      ''https://www.linkedin.com/in/ada'' []
     = (Inr False, [],
        [Print_Error ''Ada'' (TypeError ''source_profile''), Rollback, Close])
   \<and> save_single_connection
      \<lparr>now = 200, session_fails = False, query_fails = False, print_fails = False,
        commit_fails = False, report_fails = False, rollback_fails = False,
        close_fails = False\<rparr>
      (connection_dict (''Ada'', ''Director'', ''https://www.linkedin.com/in/ada''))
      ''https://www.linkedin.com/in/ada'' []
     = (Inr False, [],
        [Print_Error ''Ada'' (TypeError ''source_profile''), Rollback, Close])"
proof -
  have "find (\<lambda>r. profile_url r = ''https://www.linkedin.com/in/ada'') [] = None"
    by simp
  from save_single_connection_new [OF this] show ?thesis
    by simp
qed

text \<open>
  C6, as claimed: on any failure the function rolls back, reports without raising and
  returns \<open>False\<close>. Not when the report itself fails: for a stored connection whose name the
  output cannot print, the \<^verbatim>\<open>print\<close> of the \<^verbatim>\<open>try\<close> block raises, the handler's
  \<^verbatim>\<open>print\<close> raises again, and that exception escapes the function before the rollback.
\<close>

theorem save_single_connection_failing_report_escapes:
  "save_single_connection
      \<lparr>now = 100, session_fails = False, query_fails = False, print_fails = True,
        commit_fails = False, report_fails = True, rollback_fails = False,
        close_fails = False\<rparr>
      (connection_dict (''Ada'', ''Director'', ''https://www.linkedin.com/in/ada''))
      ''https://www.linkedin.com/in/ada''
      [\<lparr>id_col = 1, name = ''Ada'', occupation = ''Engineer'',
        profile_url = ''https://www.linkedin.com/in/ada'',
        first_seen = 50, last_updated = 50\<rparr>]
     = (Inl PrintError,
        [\<lparr>id_col = 1, name = ''Ada'', occupation = ''Engineer'',
          profile_url = ''https://www.linkedin.com/in/ada'',
          first_seen = 50, last_updated = 50\<rparr>],
        [Close])"
  by (simp add: save_single_connection_def session_finally_def try_block_record
        connection_dict_items)

text \<open>
  C6, amended. For every input record (the dict of a name, an occupation and a profile
  URL), when creating the session, the handler's own report and rollback, and closing the
  session do not raise: if the \<^verbatim>\<open>try\<close> block completes, the function has committed last,
  returns \<open>True\<close> and leaves the committed table; if anything in the \<^verbatim>\<open>try\<close> block
  raises, it reports that failure, rolls back, leaves the table as it was and returns
  \<open>False\<close>. In particular an update of a stored row is committed when nothing fails, and
  a failing lookup or a failing commit gives \<open>False\<close> with the table unchanged.
\<close>

theorem save_single_connection_commits_or_rolls_back:
  "(\<not> session_fails env \<and> \<not> report_fails env \<and> \<not> rollback_fails env \<and> \<not> close_fails env
      \<longrightarrow>
      (case try_block env (connection_dict (n, occ, url)) sp db of
         (evs, Inr db') \<Rightarrow>
           save_single_connection env (connection_dict (n, occ, url)) sp db
             = (Inr True, db', evs @ [Close])
           \<and> (\<exists>evs'. evs = evs' @ [Commit] \<and> Commit \<notin> set evs' \<and> Rollback \<notin> set evs')
       | (evs, Inl e) \<Rightarrow>
           save_single_connection env (connection_dict (n, occ, url)) sp db
             = (Inr False, db, evs @ [Print_Error n e, Rollback, Close])
           \<and> Commit \<notin> set evs \<and> Rollback \<notin> set evs))
   \<and> (\<not> session_fails env \<and> \<not> close_fails env
       \<and> \<not> query_fails env \<and> \<not> print_fails env \<and> \<not> commit_fails env
       \<and> find (\<lambda>r. profile_url r = url) db = Some existing
      \<longrightarrow>
      save_single_connection env (connection_dict (n, occ, url)) sp db
        = (Inr True, update_row (now env) existing n occ db,
           [Print_Updated n, Commit, Close]))
   \<and> (\<not> session_fails env \<and> \<not> report_fails env \<and> \<not> rollback_fails env \<and> \<not> close_fails env
       \<and> query_fails env
      \<longrightarrow>
      save_single_connection env (connection_dict (n, occ, url)) sp db
        = (Inr False, db, [Print_Error n DatabaseError, Rollback, Close]))
   \<and> (\<not> session_fails env \<and> \<not> report_fails env \<and> \<not> rollback_fails env \<and> \<not> close_fails env
       \<and> \<not> query_fails env \<and> \<not> print_fails env \<and> commit_fails env
       \<and> find (\<lambda>r. profile_url r = url) db = Some existing
      \<longrightarrow>
      save_single_connection env (connection_dict (n, occ, url)) sp db
        = (Inr False, db,
           [Print_Updated n, Print_Error n DatabaseError, Rollback, Close]))"
proof (intro conjI impI)
  assume h: "\<not> session_fails env \<and> \<not> report_fails env \<and> \<not> rollback_fails env
             \<and> \<not> close_fails env"
  have nm: "connection_dict (n, occ, url) ''name'' = Some n"
    by (simp add: connection_dict_def)
  note eq = save_single_connection_named
    [of "connection_dict (n, occ, url)" n env sp db, OF nm]
  show "case try_block env (connection_dict (n, occ, url)) sp db of
         (evs, Inr db') \<Rightarrow>
           save_single_connection env (connection_dict (n, occ, url)) sp db
             = (Inr True, db', evs @ [Close])
           \<and> (\<exists>evs'. evs = evs' @ [Commit] \<and> Commit \<notin> set evs' \<and> Rollback \<notin> set evs')
       | (evs, Inl e) \<Rightarrow>
           save_single_connection env (connection_dict (n, occ, url)) sp db
             = (Inr False, db, evs @ [Print_Error n e, Rollback, Close])
           \<and> Commit \<notin> set evs \<and> Rollback \<notin> set evs"
  proof (cases "try_block env (connection_dict (n, occ, url)) sp db")
    case (Pair evs r)
    show ?thesis
    proof (cases r)
      case (Inl e)
      with Pair h eq try_block_no_commit [of env _ sp db evs e]
        try_block_events [OF Pair]
      show ?thesis by simp
    next
      case (Inr db')
      with Pair h eq try_block_commit [of env _ sp db evs db']
      show ?thesis by simp
    qed
  qed
next
  assume "\<not> session_fails env \<and> \<not> close_fails env
       \<and> \<not> query_fails env \<and> \<not> print_fails env \<and> \<not> commit_fails env
       \<and> find (\<lambda>r. profile_url r = url) db = Some existing"
  then show "save_single_connection env (connection_dict (n, occ, url)) sp db
        = (Inr True, update_row (now env) existing n occ db,
           [Print_Updated n, Commit, Close])"
    by (simp add: save_single_connection_existing)
next
  assume "\<not> session_fails env \<and> \<not> report_fails env \<and> \<not> rollback_fails env
       \<and> \<not> close_fails env \<and> query_fails env"
  then show "save_single_connection env (connection_dict (n, occ, url)) sp db
        = (Inr False, db, [Print_Error n DatabaseError, Rollback, Close])"
    by (simp add: save_single_connection_def session_finally_def try_block_record
          connection_dict_items)
next
  assume "\<not> session_fails env \<and> \<not> report_fails env \<and> \<not> rollback_fails env
       \<and> \<not> close_fails env
       \<and> \<not> query_fails env \<and> \<not> print_fails env \<and> commit_fails env
       \<and> find (\<lambda>r. profile_url r = url) db = Some existing"
  then show "save_single_connection env (connection_dict (n, occ, url)) sp db
        = (Inr False, db,
           [Print_Updated n, Print_Error n DatabaseError, Rollback, Close])"
    by (simp add: save_single_connection_def session_finally_def try_block_record
          connection_dict_items)
qed

text \<open>
  The amended statement at a stored connection: an update that commits, a lookup that
  fails, and a commit that fails.
\<close>

theorem save_single_connection_commits_or_rolls_back_witness:
  "save_single_connection
      \<lparr>now = 100, session_fails = False, query_fails = False, print_fails = False,
        commit_fails = False, report_fails = False, rollback_fails = False,
        close_fails = False\<rparr>
      (connection_dict (''Ada'', ''Director'', ''https://www.linkedin.com/in/ada''))
      ''https://www.linkedin.com/in/ada''
      [\<lparr>id_col = 1, name = ''Ada'', occupation = ''Engineer'',
        profile_url = ''https://www.linkedin.com/in/ada'',
        first_seen = 50, last_updated = 50\<rparr>]
     = (Inr True,
        [\<lparr>id_col = 1, name = ''Ada'', occupation = ''Director'',
          profile_url = ''https://www.linkedin.com/in/ada'',
          first_seen = 50, last_updated = 100\<rparr>],
        [Print_Updated ''Ada'', Commit, Close])
   \<and> save_single_connection
      \<lparr>now = 100, session_fails = False, query_fails = True, print_fails = False,
        commit_fails = False, report_fails = False, rollback_fails = False,
        close_fails = False\<rparr>
      (connection_dict (''Ada'', ''Director'', ''https://www.linkedin.com/in/ada''))
      ''https://www.linkedin.com/in/ada''
      [\<lparr>id_col = 1, name = ''Ada'', occupation = ''Engineer'',
        profile_url = ''https://www.linkedin.com/in/ada'',
        first_seen = 50, last_updated = 50\<rparr>]
     = (Inr False,
        [\<lparr>id_col = 1, name = ''Ada'', occupation = ''Engineer'',
          profile_url = ''https://www.linkedin.com/in/ada'',
          first_seen = 50, last_updated = 50\<rparr>],
        [Print_Error ''Ada'' DatabaseError, Rollback, Close])
   \<and> save_single_connection
      \<lparr>now = 100, session_fails = False, query_fails = False, print_fails = False,
        commit_fails = True, report_fails = False, rollback_fails = False,
        close_fails = False\<rparr>
      (connection_dict (''Ada'', ''Director'', ''https://www.linkedin.com/in/ada''))
      ''https://www.linkedin.com/in/ada''
      [\<lparr>id_col = 1, name = ''Ada'', occupation = ''Engineer'',
        profile_url = ''https://www.linkedin.com/in/ada'',
        first_seen = 50, last_updated = 50\<rparr>]
     = (Inr False,
        [\<lparr>id_col = 1, name = ''Ada'', occupation = ''Engineer'',
          profile_url = ''https://www.linkedin.com/in/ada'',
          first_seen = 50, last_updated = 50\<rparr>],
        [Print_Updated ''Ada'', Print_Error ''Ada'' DatabaseError, Rollback, Close])"
proof -
  let ?row = "\<lparr>id_col = 1, name = ''Ada'', occupation = ''Engineer'',
        profile_url = ''https://www.linkedin.com/in/ada'',
        first_seen = 50, last_updated = 50\<rparr>"
  have f: "find (\<lambda>r. profile_url r = ''https://www.linkedin.com/in/ada'') [?row]
             = Some ?row"
    by simp
  note t = save_single_connection_commits_or_rolls_back
    [of _ "''Ada''" "''Director''" "''https://www.linkedin.com/in/ada''"
        "''https://www.linkedin.com/in/ada''" "[?row]" ?row]
  have a: "save_single_connection
      \<lparr>now = 100, session_fails = False, query_fails = False, print_fails = False,
        commit_fails = False, report_fails = False, rollback_fails = False,
        close_fails = False\<rparr>
      (connection_dict (''Ada'', ''Director'', ''https://www.linkedin.com/in/ada''))
      ''https://www.linkedin.com/in/ada'' [?row]
     = (Inr True, update_row 100 ?row ''Ada'' ''Director'' [?row],
        [Print_Updated ''Ada'', Commit, Close])"
    using t [of "\<lparr>now = 100, session_fails = False, query_fails = False, print_fails = False,
        commit_fails = False, report_fails = False, rollback_fails = False,
        close_fails = False\<rparr>", THEN conjunct2, THEN conjunct1] f by simp
  have b: "save_single_connection
      \<lparr>now = 100, session_fails = False, query_fails = True, print_fails = False,
        commit_fails = False, report_fails = False, rollback_fails = False,
        close_fails = False\<rparr>
      (connection_dict (''Ada'', ''Director'', ''https://www.linkedin.com/in/ada''))
      ''https://www.linkedin.com/in/ada'' [?row]
     = (Inr False, [?row], [Print_Error ''Ada'' DatabaseError, Rollback, Close])"
    using t [of "\<lparr>now = 100, session_fails = False, query_fails = True, print_fails = False,
        commit_fails = False, report_fails = False, rollback_fails = False,
        close_fails = False\<rparr>", THEN conjunct2, THEN conjunct2, THEN conjunct1] by simp
  have c: "save_single_connection
      \<lparr>now = 100, session_fails = False, query_fails = False, print_fails = False,
        commit_fails = True, report_fails = False, rollback_fails = False,
        close_fails = False\<rparr>
      (connection_dict (''Ada'', ''Director'', ''https://www.linkedin.com/in/ada''))
      ''https://www.linkedin.com/in/ada'' [?row]
     = (Inr False, [?row],
        [Print_Updated ''Ada'', Print_Error ''Ada'' DatabaseError, Rollback, Close])"
    using t [of "\<lparr>now = 100, session_fails = False, query_fails = False, print_fails = False,
        commit_fails = True, report_fails = False, rollback_fails = False,
        close_fails = False\<rparr>", THEN conjunct2, THEN conjunct2, THEN conjunct2] f by simp
  have u: "update_row 100 ?row ''Ada'' ''Director'' [?row]
      = [\<lparr>id_col = 1, name = ''Ada'', occupation = ''Director'',
          profile_url = ''https://www.linkedin.com/in/ada'',
          first_seen = 50, last_updated = 100\<rparr>]"
    by (simp add: update_row_def flush_update_def)
  from a b c u show ?thesis by simp
qed

section \<open>Properties of the browser session manager\<close>

text \<open>
  C10. On a manager whose \<^verbatim>\<open>start()\<close> was never called (browser, context and page are
  \<open>None\<close>), \<^verbatim>\<open>save_state()\<close> returns without raising, calls nothing and leaves the
  state file as it is, and so does \<^verbatim>\<open>close()\<close>, whatever the environment.
\<close>

theorem unstarted_save_state_and_close_do_nothing:
  "save_state env (PersistentBrowser_init path) file = (Inr (), file, [])
   \<and> close env (PersistentBrowser_init path) file = (Inr (), file, [])"
  by (simp add: save_state_def close_def finally_block_def close_if_def
        PersistentBrowser_init_def)

text \<open>
  C7, as claimed: a present but unreadable state file makes \<^verbatim>\<open>start()\<close> fail. Not
  when the file cannot even be stat-ed: \<^verbatim>\<open>os.path.exists\<close> then answers False, no
  \<^verbatim>\<open>storage_state\<close> parameter is passed, and \<^verbatim>\<open>start()\<close> returns a page on a fresh
  context without any error.
\<close>

theorem start_unreachable_file_falls_back_silently:
  "start \<lparr>launch_fails = False, new_page_fails = False, storage_state_fails = False,
        page_close_fails = False, context_close_fails = False,
        browser_close_fails = False\<rparr>
     Unreachable (PersistentBrowser_init ''browser_state.json'')
   = (\<lparr>storage_state_path = ''browser_state.json'', browser = Some Browser,
       context_attr = Some (BrowserContext []), page = Some Page\<rparr>, Inr Page)"
  by (simp add: start_def new_context_def path_exists_def PersistentBrowser_init_def)

text \<open>
  C7, amended. When \<^verbatim>\<open>os.path.exists\<close> answers False for the state file (it is missing,
  or it cannot be stat-ed) and the browser can be launched, \<^verbatim>\<open>start()\<close> returns a page on
  a fresh context with empty storage. When \<^verbatim>\<open>os.path.exists\<close> sees the file but it cannot
  be read or parsed, \<^verbatim>\<open>start()\<close> raises: the path is handed to \<^verbatim>\<open>new_context\<close>, its
  error propagates, and neither a context nor a page is created in its place.
\<close>

theorem start_missing_file_fresh_context_corrupt_file_raises:
  "(\<not> launch_fails env \<and> \<not> new_page_fails env \<and> \<not> path_exists file \<longrightarrow>
      start env file self
        = (self\<lparr>browser := Some Browser, context_attr := Some (BrowserContext []),
                 page := Some Page\<rparr>, Inr Page))
   \<and> \<not> path_exists Missing \<and> \<not> path_exists Unreachable \<and> path_exists Corrupt
   \<and> (\<exists>e. snd (start env Corrupt self) = Inl e)
   \<and> (\<not> launch_fails env \<longrightarrow>
        start env Corrupt self = (self\<lparr>browser := Some Browser\<rparr>, Inl StorageStateError))
   \<and> context_attr (fst (start env Corrupt self)) = context_attr self
   \<and> page (fst (start env Corrupt self)) = page self"
  by (simp add: start_def new_context_def path_exists_def)

theorem start_missing_file_fresh_context_corrupt_file_raises_witness:
  "\<not> launch_fails \<lparr>launch_fails = False, new_page_fails = False, storage_state_fails = False,
        page_close_fails = False, context_close_fails = False,
        browser_close_fails = False\<rparr>
   \<and> \<not> new_page_fails \<lparr>launch_fails = False, new_page_fails = False, storage_state_fails = False,
        page_close_fails = False, context_close_fails = False,
        browser_close_fails = False\<rparr>
   \<and> \<not> path_exists Missing
   \<and> start \<lparr>launch_fails = False, new_page_fails = False, storage_state_fails = False,
        page_close_fails = False, context_close_fails = False,
        browser_close_fails = False\<rparr>
        Missing (PersistentBrowser_init ''browser_state.json'')
      = (\<lparr>storage_state_path = ''browser_state.json'', browser = Some Browser,
          context_attr = Some (BrowserContext []), page = Some Page\<rparr>, Inr Page)
   \<and> start \<lparr>launch_fails = False, new_page_fails = False, storage_state_fails = False,
        page_close_fails = False, context_close_fails = False,
        browser_close_fails = False\<rparr>
        Corrupt (PersistentBrowser_init ''browser_state.json'')
      = (\<lparr>storage_state_path = ''browser_state.json'', browser = Some Browser,
          context_attr = None, page = None\<rparr>, Inl StorageStateError)"
  using start_missing_file_fresh_context_corrupt_file_raises
    [of "\<lparr>launch_fails = False, new_page_fails = False, storage_state_fails = False,
        page_close_fails = False, context_close_fails = False,
        browser_close_fails = False\<rparr>" Missing
        "PersistentBrowser_init ''browser_state.json''"]
  by (simp add: PersistentBrowser_init_def)

text \<open>
  C4, as claimed: a failure in one release does not prevent the later ones. It does: with
  a started manager whose \<^verbatim>\<open>page.close()\<close> raises, \<^verbatim>\<open>close()\<close> saves the state,
  tries to close the page, and raises; the context and the browser are never closed.
\<close>

theorem close_page_failure_skips_context_and_browser:
  "close \<lparr>launch_fails = False, new_page_fails = False, storage_state_fails = False,
      page_close_fails = True, context_close_fails = False,
      browser_close_fails = False\<rparr>
     \<lparr>storage_state_path = ''browser_state.json'', browser = Some Browser,
      context_attr = Some (BrowserContext []), page = Some Page\<rparr> Missing
   = (Inl PlaywrightError, Stored [], [Call_storage_state, Call_page_close])"
  by (simp add: close_def save_state_def finally_block_def close_if_def)

text \<open>
  C4, amended. \<^verbatim>\<open>close()\<close> first attempts \<^verbatim>\<open>save_state()\<close>, whether or not that raises,
  and then releases the page, the context and the browser, in that order and each only if
  held, up to and including the first release that raises: that release ends \<^verbatim>\<open>close()\<close>
  with its exception and the later ones are not attempted. When no release raises,
  \<^verbatim>\<open>close()\<close> ends as \<^verbatim>\<open>save_state()\<close> did. The state file is what \<^verbatim>\<open>save_state()\<close>
  left.
\<close>

theorem close_saves_then_releases_in_order:
  "close env self file =
     (let saved = save_state env self file;
          page_raises = (page self \<noteq> None \<and> page_close_fails env);
          context_raises =
            (\<not> page_raises \<and> context_attr self \<noteq> None \<and> context_close_fails env);
          browser_raises =
            (\<not> page_raises \<and> \<not> context_raises \<and> browser self \<noteq> None
             \<and> browser_close_fails env)
      in (if page_raises \<or> context_raises \<or> browser_raises then Inl PlaywrightError
          else fst saved,
          fst (snd saved),
          snd (snd saved)
          @ (if page self \<noteq> None then [Call_page_close] else [])
          @ (if \<not> page_raises \<and> context_attr self \<noteq> None
             then [Call_context_close] else [])
          @ (if \<not> page_raises \<and> \<not> context_raises \<and> browser self \<noteq> None
             then [Call_browser_close] else [])))
   \<and> snd (snd (save_state env self file))
       = (if context_attr self \<noteq> None then [Call_storage_state] else [])
   \<and> fst (save_state env self file)
       = (if context_attr self \<noteq> None \<and> storage_state_fails env
          then Inl PlaywrightError else Inr ())"
proof (intro conjI)
  show "snd (snd (save_state env self file))
       = (if context_attr self \<noteq> None then [Call_storage_state] else [])"
    by (cases "context_attr self"; cases "the (context_attr self)")
       (auto simp: save_state_def)
next
  show "fst (save_state env self file)
       = (if context_attr self \<noteq> None \<and> storage_state_fails env
          then Inl PlaywrightError else Inr ())"
    by (cases "context_attr self"; cases "the (context_attr self)")
       (auto simp: save_state_def)
next
  obtain r f c where sv: "save_state env self file = (r, f, c)"
    by (cases "save_state env self file") auto
  show "close env self file =
     (let saved = save_state env self file;
          page_raises = (page self \<noteq> None \<and> page_close_fails env);
          context_raises =
            (\<not> page_raises \<and> context_attr self \<noteq> None \<and> context_close_fails env);
          browser_raises =
            (\<not> page_raises \<and> \<not> context_raises \<and> browser self \<noteq> None
             \<and> browser_close_fails env)
      in (if page_raises \<or> context_raises \<or> browser_raises then Inl PlaywrightError
          else fst saved,
          fst (snd saved),
          snd (snd saved)
          @ (if page self \<noteq> None then [Call_page_close] else [])
          @ (if \<not> page_raises \<and> context_attr self \<noteq> None
             then [Call_context_close] else [])
          @ (if \<not> page_raises \<and> \<not> context_raises \<and> browser self \<noteq> None
             then [Call_browser_close] else [])))"
    unfolding close_def sv Let_def
    by (cases "page self"; cases "context_attr self"; cases "browser self")
       (auto simp: finally_block_def close_if_def)
qed

text \<open>
  The amended statement at a started manager: once with a failing \<^verbatim>\<open>save_state()\<close> and
  releases that succeed, once with a failing context release, once with a failing browser
  release.
\<close>

theorem close_saves_then_releases_in_order_witness:
  "close \<lparr>launch_fails = False, new_page_fails = False, storage_state_fails = True,
      page_close_fails = False, context_close_fails = False,
      browser_close_fails = False\<rparr>
     \<lparr>storage_state_path = ''browser_state.json'', browser = Some Browser,
      context_attr = Some (BrowserContext []), page = Some Page\<rparr> Missing
     = (Inl PlaywrightError, Missing,
        [Call_storage_state, Call_page_close, Call_context_close, Call_browser_close])
   \<and> close \<lparr>launch_fails = False, new_page_fails = False, storage_state_fails = False,
      page_close_fails = False, context_close_fails = True,
      browser_close_fails = False\<rparr>
     \<lparr>storage_state_path = ''browser_state.json'', browser = Some Browser,
      context_attr = Some (BrowserContext []), page = Some Page\<rparr> Missing
     = (Inl PlaywrightError, Stored [],
        [Call_storage_state, Call_page_close, Call_context_close])
   \<and> close \<lparr>launch_fails = False, new_page_fails = False, storage_state_fails = False,
      page_close_fails = False, context_close_fails = False,
      browser_close_fails = True\<rparr>
     \<lparr>storage_state_path = ''browser_state.json'', browser = Some Browser,
      context_attr = Some (BrowserContext []), page = Some Page\<rparr> Missing
     = (Inl PlaywrightError, Stored [],
        [Call_storage_state, Call_page_close, Call_context_close, Call_browser_close])"
  using
    close_saves_then_releases_in_order
      [of "\<lparr>launch_fails = False, new_page_fails = False, storage_state_fails = True,
      page_close_fails = False, context_close_fails = False,
      browser_close_fails = False\<rparr>"
          "\<lparr>storage_state_path = ''browser_state.json'', browser = Some Browser,
      context_attr = Some (BrowserContext []), page = Some Page\<rparr>" Missing]
    close_saves_then_releases_in_order
      [of "\<lparr>launch_fails = False, new_page_fails = False, storage_state_fails = False,
      page_close_fails = False, context_close_fails = True,
      browser_close_fails = False\<rparr>"
          "\<lparr>storage_state_path = ''browser_state.json'', browser = Some Browser,
      context_attr = Some (BrowserContext []), page = Some Page\<rparr>" Missing]
    close_saves_then_releases_in_order
      [of "\<lparr>launch_fails = False, new_page_fails = False, storage_state_fails = False,
      page_close_fails = False, context_close_fails = False,
      browser_close_fails = True\<rparr>"
          "\<lparr>storage_state_path = ''browser_state.json'', browser = Some Browser,
      context_attr = Some (BrowserContext []), page = Some Page\<rparr>" Missing]
  by (simp add: save_state_def)

section \<open>Properties of the connection-count parser\<close>

lemma split_on_nonempty: "split_on sep s \<noteq> []"
  by (induction s) (auto split: list.splits)

text \<open>The \<^verbatim>\<open>try\<close> block raises nothing but \<^verbatim>\<open>ValueError\<close>.\<close>

lemma clean_and_parse_errors: "clean_and_parse s = Inl e \<Longrightarrow> e = ValueError"
  using split_on_nonempty [of "CHR '' ''" s]
  by (auto simp: clean_and_parse_def index0_def py_int_def
        split: sum.splits list.splits option.splits if_splits)

text \<open>
  C8. For every input string \<^verbatim>\<open>extract_connection_count\<close> returns an integer and raises
  nothing: the number its first space-separated piece spells once the commas are removed, and 0
  when that piece does not parse. \<^verbatim>\<open>"1,704 Connections"\<close> gives 1704; the empty string and
  \<^verbatim>\<open>"Connections"\<close> give 0.
\<close>

theorem extract_connection_count_returns_integer:
  "extract_connection_count text
     = Inr (case clean_and_parse text of Inl e \<Rightarrow> 0 | Inr n \<Rightarrow> n)
   \<and> extract_connection_count ''1,704 Connections'' = Inr 1704
   \<and> extract_connection_count [] = Inr 0
   \<and> extract_connection_count ''Connections'' = Inr 0"
proof -
  have "extract_connection_count text
          = Inr (case clean_and_parse text of Inl e \<Rightarrow> 0 | Inr n \<Rightarrow> n)"
  proof (cases "clean_and_parse text")
    case (Inl e)
    then show ?thesis
      using clean_and_parse_errors [OF Inl] by (simp add: extract_connection_count_def)
  next
    case (Inr n)
    then show ?thesis by (simp add: extract_connection_count_def)
  qed
  moreover have "extract_connection_count ''1,704 Connections'' = Inr 1704" by code_simp
  moreover have "extract_connection_count [] = Inr 0" by code_simp
  moreover have "extract_connection_count ''Connections'' = Inr 0" by code_simp
  ultimately show ?thesis by blast
qed

section \<open>Properties of the scroll loop\<close>

lemma cycles_scroll_cycle: "cycles (scroll_cycle height s) = Suc (cycles s)"
  by (simp add: scroll_cycle_def Let_def)

lemma scroll_inv_init: "scroll_inv height (scroll_init height)"
  by (simp add: scroll_inv_def scroll_init_def)

lemma scroll_inv_cycle:
  "scroll_inv height s \<Longrightarrow> \<not> all_loaded s \<Longrightarrow> scroll_inv height (scroll_cycle height s)"
  by (auto simp: scroll_inv_def scroll_cycle_def Let_def)

lemma scroll_loop_running:
  "\<not> all_loaded s \<Longrightarrow> scroll_attempts s < max_scroll_attempts \<Longrightarrow>
   scroll_loop height s = scroll_loop height (scroll_cycle height s)"
  by (subst scroll_loop.simps) simp

lemma scroll_loop_stopped: "all_loaded s \<Longrightarrow> scroll_loop height s = Some s"
  by (subst scroll_loop.simps) simp

text \<open>
  If the heights of cycles \<open>k + 1\<close>, \<open>k + 2\<close> and \<open>k + 3\<close> all equal that of cycle \<open>k\<close>,
  the loop started in any state of the first \<open>k + 3\<close> cycles whose counter has kept up with
  the stagnant cycles so far leaves with \<open>all_loaded\<close> set. The distance to cycle \<open>k + 3\<close>
  shrinks with every cycle.
\<close>

lemma stagnant_exit:
  assumes win: "height (Suc k) = height k" "height (Suc (Suc k)) = height k"
               "height (Suc (Suc (Suc k))) = height k"
  shows "scroll_inv height s \<Longrightarrow> cycles s \<le> k + 3 \<Longrightarrow> cycles s - k \<le> scroll_attempts s \<Longrightarrow>
         \<exists>s'. scroll_loop height s = Some s' \<and> all_loaded s' \<and> scroll_attempts s' = 3
              \<and> cycles s' \<le> k + 3"
proof (induction "k + 3 - cycles s" arbitrary: s)
  case 0
  then have "cycles s = k + 3" by simp
  with 0 have three: "scroll_attempts s = 3" by (simp add: scroll_inv_def)
  with 0 have "all_loaded s" by (simp add: scroll_inv_def)
  with three 0 show ?case by (auto simp: scroll_loop_stopped)
next
  case (Suc n)
  show ?case
  proof (cases "all_loaded s")
    case True
    with Suc.prems show ?thesis by (auto simp: scroll_loop_stopped scroll_inv_def)
  next
    case False
    let ?s = "scroll_cycle height s"
    from False Suc.prems have att: "scroll_attempts s < 3" by (auto simp: scroll_inv_def)
    then have run: "scroll_loop height s = scroll_loop height ?s"
      using False by (simp add: scroll_loop_running max_scroll_attempts_def)
    have inv: "scroll_inv height ?s" using Suc.prems False by (simp add: scroll_inv_cycle)
    have c: "cycles ?s = Suc (cycles s)" by (rule cycles_scroll_cycle)
    from Suc.hyps have lt: "cycles s < k + 3" by simp
    have lh: "last_height s = height (cycles s)" using Suc.prems by (simp add: scroll_inv_def)
    have grow: "cycles ?s - k \<le> scroll_attempts ?s"
    proof (cases "cycles s < k")
      case True
      then show ?thesis by (simp add: c)
    next
      case False
      with lt have "cycles s = k \<or> cycles s = Suc k \<or> cycles s = Suc (Suc k)" by arith
      then have "height (Suc (cycles s)) = last_height s"
        using win lh by auto
      then have "scroll_attempts ?s = Suc (scroll_attempts s)"
        by (simp add: scroll_cycle_def Let_def)
      with Suc.prems(3) False show ?thesis by (simp add: c)
    qed
    have "n = k + 3 - cycles ?s" using Suc.hyps(2) c by simp
    from Suc.hyps(1) [OF this inv _ grow] lt c run show ?thesis by simp
  qed
qed

text \<open>
  C3, as claimed: three consecutive cycles without growth end the loop before the 20-cycle
  ceiling is reached. Not when they come late: with heights 0, 1, ..., 25, 25, 25, 25 the
  page grows for 25 cycles, during which nothing stops the loop, and the loop is left
  loaded only after cycle 28.
\<close>

theorem late_stagnation_ends_loop_after_twenty_cycles:
  "human_like_behavior (\<lambda>k. int (min k 25))
     = Some \<lparr>last_height = 25, all_loaded = True, scroll_attempts = 3, cycles = 28,
             save_cycles = [1, 2, 3, 4, 5, 6, 7, 8, 9, 10, 11, 12, 13, 14, 15, 16, 17,
                            18, 19, 20, 21, 22, 23, 24, 25]\<rparr>"
  by code_simp

text \<open>
  C3, amended. If the measured height is unchanged for three consecutive cycles that all
  come before the 20th (those after cycle \<open>k\<close>, with \<open>k + 3 < 20\<close>),
  \<^verbatim>\<open>human_like_behavior\<close> returns: it leaves the loop with \<open>all_loaded\<close> set and the
  counter at 3, no later than the third of those cycles, so after fewer than 20 cycles. In
  any cycle the counter goes up by one when the height is the previous one, and back to 0
  when it differs.
\<close>

theorem stagnation_for_three_cycles_ends_loop_loaded:
  "(k + 3 < max_scroll_attempts
     \<and> height (Suc k) = height k \<and> height (Suc (Suc k)) = height k
     \<and> height (Suc (Suc (Suc k))) = height k \<longrightarrow>
    (\<exists>s. human_like_behavior height = Some s \<and> all_loaded s \<and> scroll_attempts s = 3
         \<and> cycles s \<le> k + 3 \<and> cycles s < max_scroll_attempts))
   \<and> scroll_attempts (scroll_cycle height st)
       = (if height (Suc (cycles st)) = last_height st then Suc (scroll_attempts st) else 0)"
proof -
  have "scroll_attempts (scroll_cycle height st)
       = (if height (Suc (cycles st)) = last_height st then Suc (scroll_attempts st) else 0)"
    by (simp add: scroll_cycle_def Let_def)
  moreover have "\<exists>s. human_like_behavior height = Some s \<and> all_loaded s
         \<and> scroll_attempts s = 3
         \<and> cycles s \<le> k + 3 \<and> cycles s < max_scroll_attempts"
    if "k + 3 < max_scroll_attempts"
       and win: "height (Suc k) = height k" "height (Suc (Suc k)) = height k"
       "height (Suc (Suc (Suc k))) = height k"
    using stagnant_exit [OF win scroll_inv_init] that(1)
    by (auto simp: human_like_behavior_def scroll_init_def)
  ultimately show ?thesis by blast
qed

theorem stagnation_for_three_cycles_ends_loop_loaded_witness:
  "2 + 3 < max_scroll_attempts
   \<and> int (min (Suc 2) 2) = int (min 2 2) \<and> int (min (Suc (Suc 2)) 2) = int (min 2 2)
   \<and> int (min (Suc (Suc (Suc 2))) 2) = int (min 2 2)
   \<and> (\<exists>s. human_like_behavior (\<lambda>k. int (min k 2)) = Some s \<and> all_loaded s
          \<and> scroll_attempts s = 3 \<and> cycles s \<le> 2 + 3
          \<and> cycles s < max_scroll_attempts)"
  using stagnation_for_three_cycles_ends_loop_loaded [of 2 "\<lambda>k. int (min k 2)"]
  by (simp add: max_scroll_attempts_def)

text \<open>A cycle on a page that has grown: the counter is 0 again and the state is saved.\<close>

lemma growing_cycle:
  "height (cycles s) < height (Suc (cycles s)) \<Longrightarrow> last_height s = height (cycles s) \<Longrightarrow>
   \<not> all_loaded s \<Longrightarrow>
   last_height (scroll_cycle height s) = height (cycles (scroll_cycle height s))
   \<and> \<not> all_loaded (scroll_cycle height s) \<and> scroll_attempts (scroll_cycle height s) = 0
   \<and> save_cycles (scroll_cycle height s) = save_cycles s @ [Suc (cycles s)]"
  by (simp add: scroll_cycle_def Let_def)

text \<open>On a page that grows in every cycle the loop returns from no state with counter 0.\<close>

lemma growing_never_returns:
  "scroll_loop height s = Some s' \<Longrightarrow> (\<forall>k. height k < height (Suc k)) \<Longrightarrow>
   last_height s = height (cycles s) \<Longrightarrow> \<not> all_loaded s \<Longrightarrow> scroll_attempts s = 0 \<Longrightarrow> False"
proof (induction rule: scroll_loop.raw_induct [rotated 1, consumes 1])
  case (1 f h s s')
  from 1(2) 1(5) 1(6) have "f h (scroll_cycle h s) = Some s'"
    by (simp add: max_scroll_attempts_def)
  moreover from 1(3) have "h (cycles s) < h (Suc (cycles s))" by blast
  moreover note growing_cycle [of h s, OF _ 1(4) 1(5)]
  ultimately show ?case
    using 1(1) [of h "scroll_cycle h s" s', OF _ 1(3)] by simp
qed

lemma growing_never_stops:
  assumes "\<And>k. height k < height (Suc k)"
  shows "human_like_behavior height = None"
proof (cases "human_like_behavior height")
  case None
  then show ?thesis .
next
  case (Some s')
  then have "scroll_loop height (scroll_init height) = Some s'"
    by (simp add: human_like_behavior_def)
  from growing_never_returns [OF this] assms show ?thesis
    by (simp add: scroll_init_def)
qed

lemma growing_after_cycles:
  assumes "\<And>k. height k < height (Suc k)"
  shows "last_height (after_cycles n height) = height n \<and> cycles (after_cycles n height) = n
     \<and> \<not> all_loaded (after_cycles n height) \<and> scroll_attempts (after_cycles n height) = 0
     \<and> save_cycles (after_cycles n height) = map Suc [0..<n]"
proof (induction n)
  case 0
  then show ?case by (simp add: scroll_init_def)
next
  case (Suc n)
  then have "height (cycles (after_cycles n height))
               < height (Suc (cycles (after_cycles n height)))"
    using assms [of n] by simp
  from growing_cycle [of height "after_cycles n height", OF this] Suc
  show ?case by (simp add: cycles_scroll_cycle)
qed

text \<open>
  C2. On a page whose height strictly increases in every cycle the loop should run exactly
  20 cycles and stop. It does not: \<open>scroll_attempts\<close> counts only the cycles without
  growth and is reset by every cycle with growth, so it stays 0 and never reaches
  \<open>max_scroll_attempts\<close>. With heights 0, 1, 2, ... the loop never returns; after 20
  cycles it is not loaded, its guard still holds, and it goes on to cycle 21.
\<close>

theorem growing_page_scrolls_past_twenty_cycles:
  "human_like_behavior (\<lambda>k. int k) = None
   \<and> \<not> all_loaded (after_cycles 20 (\<lambda>k. int k))
   \<and> scroll_attempts (after_cycles 20 (\<lambda>k. int k)) < max_scroll_attempts
   \<and> cycles (scroll_cycle (\<lambda>k. int k) (after_cycles 20 (\<lambda>k. int k))) = 21"
proof -
  have g: "\<And>k. int k < int (Suc k)" by simp
  from growing_never_stops [of "\<lambda>k. int k"] growing_after_cycles [of "\<lambda>k. int k" 20]
  show ?thesis by (simp add: max_scroll_attempts_def cycles_scroll_cycle)
qed

text \<open>
  C9. Every fifth cycle should save the session state. The test is made on
  \<open>scroll_attempts\<close>, the count of cycles without growth, not on the ordinal of the cycle:
  with heights 0, 1, 2, 3, 4, 4, 4, 4 the loop runs seven cycles and calls
  \<^verbatim>\<open>save_state\<close> in cycles 1, 2, 3 and 4, not in cycle 5.
\<close>

theorem fifth_cycle_without_save_state:
  "human_like_behavior (\<lambda>k. int (min k 4))
     = Some \<lparr>last_height = 4, all_loaded = True, scroll_attempts = 3, cycles = 7,
             save_cycles = [1, 2, 3, 4]\<rparr>"
  by code_simp

section \<open>Properties of the extraction loop\<close>

lemma after_save_fields:
  "connections (after_save res st st1) = connections st1
   \<and> extracted (after_save res st st1) = extracted st1
   \<and> save_calls (after_save res st st1) = save_calls st1"
proof -
  obtain r db' evs where res: "res = (r, db', evs)" by (cases res) auto
  show ?thesis
  proof (cases r)
    case (Inl e)
    then show ?thesis by (simp add: after_save_def res)
  next
    case (Inr b)
    then show ?thesis by (cases b) (simp_all add: after_save_def res)
  qed
qed

lemma process_element_Extracted:
  "process_element envs (Extracted n occ url) st =
     (if (n, occ, url) \<notin> set (connections st) \<and> n \<noteq> ''N/A''
      then after_save (save_single_connection (envs (length (save_calls st)))
                         (connection_dict (n, occ, url)) url (table st)) st
             (st\<lparr>extracted := extracted st @ [(n, occ, url)],
                 connections := connections st @ [(n, occ, url)],
                 save_calls := save_calls st @ [((n, occ, url), url)]\<rparr>)
      else st\<lparr>extracted := extracted st @ [(n, occ, url)]\<rparr>)"
  by (simp add: process_element_def after_save_def Let_def)

lemma dedup_inv_element: "dedup_inv st \<Longrightarrow> dedup_inv (process_element envs el st)"
proof (cases el)
  case (Extracted n occ url)
  assume inv: "dedup_inv st"
  let ?c = "(n, occ, url)"
  from inv have m: "map fst (save_calls st) = connections st"
    and d: "distinct (connections st)"
    and e: "set (connections st) = {c \<in> set (extracted st). fst c \<noteq> ''N/A''}"
    unfolding dedup_inv_def by blast+
  show ?thesis
  proof (cases "?c \<notin> set (connections st) \<and> n \<noteq> ''N/A''")
    case True
    let ?st1 = "st\<lparr>extracted := extracted st @ [?c],
                 connections := connections st @ [?c],
                 save_calls := save_calls st @ [(?c, url)]\<rparr>"
    let ?res = "save_single_connection (envs (length (save_calls st)))
                         (connection_dict ?c) url (table st)"
    have p: "process_element envs el st = after_save ?res st ?st1"
      unfolding Extracted process_element_Extracted by (rule if_P [OF True])
    have "fst ?c \<noteq> ''N/A''" using True by simp
    then have "{c \<in> set (extracted st @ [?c]). fst c \<noteq> ''N/A''}
          = insert ?c {c \<in> set (extracted st). fst c \<noteq> ''N/A''}"
      by auto
    with e have e': "set (connections st @ [?c])
          = {c \<in> set (extracted st @ [?c]). fst c \<noteq> ''N/A''}"
      by simp
    have d': "distinct (connections st @ [?c])" using d True by simp
    have m': "map fst (save_calls st @ [(?c, url)]) = connections st @ [?c]"
      using m by simp
    show ?thesis
      unfolding p dedup_inv_def using e' d' m' by (simp add: after_save_fields)
  next
    case False
    have p: "process_element envs el st = st\<lparr>extracted := extracted st @ [?c]\<rparr>"
      unfolding Extracted process_element_Extracted by (rule if_not_P [OF False])
    have "?c \<in> set (connections st) \<or> fst ?c = ''N/A''" using False by auto
    then have "{c \<in> set (extracted st @ [?c]). fst c \<noteq> ''N/A''}
          = {c \<in> set (extracted st). fst c \<noteq> ''N/A''}"
      using e by auto
    with e have e': "set (connections st)
          = {c \<in> set (extracted st @ [?c]). fst c \<noteq> ''N/A''}"
      by simp
    show ?thesis
      unfolding p dedup_inv_def using e' d m by simp
  qed
next
  case Extraction_fails
  assume "dedup_inv st"
  then show ?thesis by (simp add: process_element_def Extraction_fails)
qed

lemma dedup_inv_elements: "dedup_inv st \<Longrightarrow> dedup_inv (process_elements envs els st)"
  by (induction els arbitrary: st) (auto simp: dedup_inv_element)

lemma dedup_inv_page: "dedup_inv st \<Longrightarrow> dedup_inv (st\<lparr>current_page := p\<rparr>)"
  by (simp add: dedup_inv_def)

lemma dedup_inv_loop:
  "dedup_inv st \<Longrightarrow> dedup_inv (extraction_loop envs connections_count pages st)"
proof (induction envs connections_count pages st rule: extraction_loop.induct)
  case (1 envs connections_count st)
  then show ?case by simp
next
  case (2 envs connections_count pg pgs st)
  show ?case
  proof (cases pg)
    case Load_fails
    with 2 show ?thesis by simp
  next
    case (Results els button)
    show ?thesis
    proof (cases "total_saved st < connections_count \<and> els \<noteq> []")
      case False
      with 2 Results show ?thesis by auto
    next
      case True
      have inv': "dedup_inv (process_elements envs els st)"
        using 2(2) by (rule dedup_inv_elements)
      show ?thesis
      proof (cases button)
        case Button_enabled
        with 2(1) [OF _ Results _ refl Button_enabled] True inv' Results show ?thesis
          by (simp add: dedup_inv_page Let_def)
      next
        case No_button
        with True inv' Results show ?thesis by (simp add: Let_def)
      next
        case Button_disabled
        with True inv' Results show ?thesis by (simp add: Let_def)
      next
        case Click_fails
        with True inv' Results show ?thesis by (simp add: Let_def)
      qed
    qed
  qed
qed

lemma dedup_inv_start:
  "dedup_inv \<lparr>connections = [], total_saved = 0, failed_saves = 0, current_page = 1,
        table = db, extracted = [], save_calls = []\<rparr>"
  by (simp add: dedup_inv_def)

lemma distinct_count_list_one: "distinct xs \<Longrightarrow> x \<in> set xs \<Longrightarrow> count_list xs x = 1"
  by (induction xs) auto

text \<open>
  C5. Within one run of \<^verbatim>\<open>get_profile_connections\<close> no dict is handed to
  \<^verbatim>\<open>save_single_connection\<close> twice, none that is handed over has the name \<^verbatim>\<open>"N/A"\<close>,
  and every extracted dict, however many passes yield it, is handed over exactly once, or
  never when its name is \<^verbatim>\<open>"N/A"\<close>.
\<close>

theorem each_extracted_connection_saved_once:
  "distinct (map fst (save_calls (get_profile_connections envs connections_count pages db)))
   \<and> (\<forall>c \<in> set (map fst
                  (save_calls (get_profile_connections envs connections_count pages db))).
         fst c \<noteq> ''N/A'')
   \<and> (\<forall>c \<in> set (extracted (get_profile_connections envs connections_count pages db)).
         count_list
           (map fst (save_calls (get_profile_connections envs connections_count pages db))) c
           = (if fst c = ''N/A'' then 0 else 1))"
proof -
  let ?st = "get_profile_connections envs connections_count pages db"
  have inv: "dedup_inv ?st"
    unfolding get_profile_connections_def by (rule dedup_inv_loop) (rule dedup_inv_start)
  then have d: "distinct (map fst (save_calls ?st))"
    and s: "set (map fst (save_calls ?st)) = {c \<in> set (extracted ?st). fst c \<noteq> ''N/A''}"
    by (simp_all add: dedup_inv_def)
  have n: "\<forall>c \<in> set (map fst (save_calls ?st)). fst c \<noteq> ''N/A''"
    using s by blast
  have cnt: "count_list (map fst (save_calls ?st)) c = (if fst c = ''N/A'' then 0 else 1)"
    if "c \<in> set (extracted ?st)" for c
  proof (cases "fst c = ''N/A''")
    case True
    with s have "c \<notin> set (map fst (save_calls ?st))" by blast
    then have "count_list (map fst (save_calls ?st)) c = 0" by (simp add: count_list_0_iff)
    with True show ?thesis by simp
  next
    case False
    with that s have "c \<in> set (map fst (save_calls ?st))" by blast
    with d have "count_list (map fst (save_calls ?st)) c = 1"
      by (rule distinct_count_list_one)
    with False show ?thesis by simp
  qed
  show ?thesis
  proof (intro conjI ballI)
    show "distinct (map fst (save_calls ?st))" by (rule d)
  next
    fix c assume "c \<in> set (map fst (save_calls ?st))"
    with n show "fst c \<noteq> ''N/A''" by blast
  next
    fix c assume "c \<in> set (extracted ?st)"
    then show "count_list (map fst (save_calls ?st)) c = (if fst c = ''N/A'' then 0 else 1)"
      by (rule cnt)
  qed
qed

text \<open>
  A run in which two passes yield the same dict, and one element has no name: the dict is
  handed over once, the nameless one never.
\<close>

theorem each_extracted_connection_saved_once_witness:
  "extracted (get_profile_connections
        (\<lambda>i. \<lparr>now = 100, session_fails = False, query_fails = False,
              print_fails = False, commit_fails = False, report_fails = False,
              rollback_fails = False, close_fails = False\<rparr>) 3
        [Results [Extracted ''Ada'' ''Engineer'' ''u1'', Extracted ''N/A'' ''x'' ''u2'']
           Button_enabled,
         Results [Extracted ''Ada'' ''Engineer'' ''u1''] No_button] [])
      = [(''Ada'', ''Engineer'', ''u1''), (''N/A'', ''x'', ''u2''), (''Ada'', ''Engineer'', ''u1'')]
   \<and> (''Ada'', ''Engineer'', ''u1'') \<in> set (map fst (save_calls (get_profile_connections
        (\<lambda>i. \<lparr>now = 100, session_fails = False, query_fails = False,
              print_fails = False, commit_fails = False, report_fails = False,
              rollback_fails = False, close_fails = False\<rparr>) 3
        [Results [Extracted ''Ada'' ''Engineer'' ''u1'', Extracted ''N/A'' ''x'' ''u2'']
           Button_enabled,
         Results [Extracted ''Ada'' ''Engineer'' ''u1''] No_button] [])))
   \<and> count_list (map fst (save_calls (get_profile_connections
        (\<lambda>i. \<lparr>now = 100, session_fails = False, query_fails = False,
              print_fails = False, commit_fails = False, report_fails = False,
              rollback_fails = False, close_fails = False\<rparr>) 3
        [Results [Extracted ''Ada'' ''Engineer'' ''u1'', Extracted ''N/A'' ''x'' ''u2'']
           Button_enabled,
         Results [Extracted ''Ada'' ''Engineer'' ''u1''] No_button] [])))
        (''Ada'', ''Engineer'', ''u1'') = 1
   \<and> count_list (map fst (save_calls (get_profile_connections
        (\<lambda>i. \<lparr>now = 100, session_fails = False, query_fails = False,
              print_fails = False, commit_fails = False, report_fails = False,
              rollback_fails = False, close_fails = False\<rparr>) 3
        [Results [Extracted ''Ada'' ''Engineer'' ''u1'', Extracted ''N/A'' ''x'' ''u2'']
           Button_enabled,
         Results [Extracted ''Ada'' ''Engineer'' ''u1''] No_button] [])))
        (''N/A'', ''x'', ''u2'') = 0"
proof -
  let ?run = "get_profile_connections
        (\<lambda>i. \<lparr>now = 100, session_fails = False, query_fails = False,
              print_fails = False, commit_fails = False, report_fails = False,
              rollback_fails = False, close_fails = False\<rparr>) 3
        [Results [Extracted ''Ada'' ''Engineer'' ''u1'', Extracted ''N/A'' ''x'' ''u2'']
           Button_enabled,
         Results [Extracted ''Ada'' ''Engineer'' ''u1''] No_button] []"
  have ex: "extracted ?run
      = [(''Ada'', ''Engineer'', ''u1''), (''N/A'', ''x'', ''u2''), (''Ada'', ''Engineer'', ''u1'')]"
    by code_simp
  have sc: "save_calls ?run = [((''Ada'', ''Engineer'', ''u1''), ''u1'')]"
    by code_simp
  have a: "(''Ada'', ''Engineer'', ''u1'') \<in> set (extracted ?run)"
    and b: "(''N/A'', ''x'', ''u2'') \<in> set (extracted ?run)"
    by (simp_all only: ex list.set insert_iff simp_thms)
  have c: "(''Ada'', ''Engineer'', ''u1'') \<in> set (map fst (save_calls ?run))"
    by (simp only: sc list.map list.set fst_conv insert_iff simp_thms)
  note main = each_extracted_connection_saved_once
    [of "\<lambda>i. \<lparr>now = 100, session_fails = False, query_fails = False,
              print_fails = False, commit_fails = False, report_fails = False,
              rollback_fails = False, close_fails = False\<rparr>" 3
        "[Results [Extracted ''Ada'' ''Engineer'' ''u1'', Extracted ''N/A'' ''x'' ''u2'']
           Button_enabled,
         Results [Extracted ''Ada'' ''Engineer'' ''u1''] No_button]" "[]"]
  note cnt = main [THEN conjunct2, THEN conjunct2, THEN bspec]
  have one: "count_list (map fst (save_calls ?run)) (''Ada'', ''Engineer'', ''u1'') = 1"
    using cnt [OF a] by simp
  have zero: "count_list (map fst (save_calls ?run)) (''N/A'', ''x'', ''u2'') = 0"
    using cnt [OF b] by simp
  show ?thesis
    by (intro conjI) (rule ex, rule c, rule one, rule zero)
qed

end
